theory Spec2Isabelle
  imports Complex_Main "HOL-Library.Log_Nat" "HOL-Library.AList"
begin

section \<open>Python numbers\<close>

text \<open>
  The engine computes with Python \<open>float\<close>s, that is IEEE-754 binary64 numbers. A finite
  double is modelled by the rational number it denotes, and every arithmetic operation
  returns the exact result rounded to the nearest double, ties to the even mantissa
  (53 significant bits). The exponent range is not bounded: the model coincides with the
  machine on values of normal magnitude and has no overflow, subnormals, infinities or
  NaN. Python \<open>int\<close>s that occur (table entries, list lengths) are small and are
  represented exactly by the same rationals.
\<close>

definition round_half_even :: "rat \<Rightarrow> int" where
  "round_half_even x =
     (let f = \<lfloor>x\<rfloor>; d = x - of_int f
      in if d < 1 / 2 then f
         else if 1 / 2 < d then f + 1
         else if even f then f else f + 1)"

text \<open>The exponent of the leading bit of a positive rational: \<open>2^k \<le> x < 2^(k+1)\<close>.\<close>

definition ilog2 :: "rat \<Rightarrow> int" where
  "ilog2 x =
     (let (p, q) = quotient_of x; k = bitlen p - bitlen q
      in if power_int 2 k \<le> x then k else k - 1)"

definition rnd :: "rat \<Rightarrow> rat" where
  "rnd x =
     (if x = 0 then 0
      else let e = ilog2 \<bar>x\<bar> - 52
           in of_int (round_half_even (x / power_int 2 e)) * power_int 2 e)"


datatype exn =
    ValueError string
  | ZeroDivisionError
  | KeyError string
  | TypeError
  | ModelError string
  | EmptyWindow
  | ConfigurationError
  | ForecastStepFailed nat

text \<open>
  \<open>ValueError\<close>, \<open>ZeroDivisionError\<close>, \<open>KeyError\<close> and \<open>TypeError\<close> are the
  exceptions the interpreter raises in the functions below; \<open>ModelError\<close> stands for
  whatever the external regressor raises. \<open>EmptyWindow\<close>, \<open>ConfigurationError\<close> and
  \<open>ForecastStepFailed\<close> are the error names of the design document; they are part of
  the type so that statements about them can be written down.
\<close>

definition exn_bind :: "exn + 'a \<Rightarrow> ('a \<Rightarrow> exn + 'b) \<Rightarrow> exn + 'b" where
  "exn_bind m f = (case m of Inl e \<Rightarrow> Inl e | Inr v \<Rightarrow> f v)"

definition fadd :: "rat \<Rightarrow> rat \<Rightarrow> rat" where
  "fadd a b = rnd (a + b)"

definition fsub :: "rat \<Rightarrow> rat \<Rightarrow> rat" where
  "fsub a b = rnd (a - b)"

definition fmul :: "rat \<Rightarrow> rat \<Rightarrow> rat" where
  "fmul a b = rnd (a * b)"

definition fdiv :: "rat \<Rightarrow> rat \<Rightarrow> exn + rat" where
  "fdiv a b = (if b = 0 then Inl ZeroDivisionError else Inr (rnd (a / b)))"

text \<open>
  \<open>w ** t\<close> with a float base and a non-negative int exponent. The interpreter
  answers 1.0 itself when the exponent is 0 and when the base is 1.0; every other power is
  what the C library's \<open>pow\<close> returns. That function is not correctly rounded in
  general and is not part of the repository, so it is an argument of the model.
\<close>

type_synonym libm_pow = "rat \<Rightarrow> nat \<Rightarrow> rat"

definition fpow :: "libm_pow \<Rightarrow> rat \<Rightarrow> nat \<Rightarrow> rat" where
  "fpow pow w t = (if t = 0 then 1 else if w = 1 then 1 else pow w t)"

text \<open>\<open>round(x)\<close> of a float: the nearest integer, ties to even.\<close>

definition py_round :: "rat \<Rightarrow> int" where
  "py_round x = round_half_even x"

text \<open>
  \<open>sum(xs)\<close>: the running total starts at the int \<open>0\<close> and is rounded after every
  addition, from left to right. (Interpreters from CPython 3.12 on carry a compensation
  term along with the total, which changes the last bits of some sums.)
\<close>

definition py_sum :: "rat list \<Rightarrow> rat" where
  "py_sum xs = foldl fadd 0 xs"

section \<open>standard\_aqi.py\<close>

type_synonym breakpoint = "rat \<times> rat \<times> int \<times> int"

text \<open>
  The dictionary \<open>breakpoints\<close>. A decimal literal such as \<open>12.1\<close> denotes the double
  nearest to it; the literals without a fraction are ints.
\<close>

definition breakpoints :: "string \<Rightarrow> breakpoint list option" where
  "breakpoints pollutant =
     (if pollutant = ''pm25'' then Some
        [(0, rnd 12, 0, 50),
         (rnd (121 / 10), rnd (354 / 10), 51, 100),
         (rnd (355 / 10), rnd (554 / 10), 101, 150),
         (rnd (555 / 10), rnd (1504 / 10), 151, 200),
         (rnd (1505 / 10), rnd (2504 / 10), 201, 300),
         (rnd (2505 / 10), rnd (5004 / 10), 301, 500)]
      else if pollutant = ''pm10'' then Some
        [(0, 54, 0, 50),
         (55, 154, 51, 100),
         (155, 254, 101, 150),
         (255, 354, 151, 200),
         (355, 424, 201, 300),
         (425, 604, 301, 500)]
      else if pollutant = ''o3'' then Some
        [(0, rnd (54 / 1000), 0, 50),
         (rnd (55 / 1000), rnd (70 / 1000), 51, 100),
         (rnd (71 / 1000), rnd (85 / 1000), 101, 150),
         (rnd (86 / 1000), rnd (105 / 1000), 151, 200),
         (rnd (106 / 1000), rnd (200 / 1000), 201, 300)]
      else None)"

text \<open>
  The \<open>for\<close> loop over the tuples of one table: the first tuple whose closed interval
  holds the concentration decides; when the loop runs out, the function returns 500.
\<close>

fun scan :: "breakpoint list \<Rightarrow> rat \<Rightarrow> exn + int" where
  "scan [] concentration = Inr 500"
| "scan ((bplo, bphi, ilo, ihi) # rest) concentration =
     (if bplo \<le> concentration \<and> concentration \<le> bphi
      then exn_bind (fdiv (of_int (ihi - ilo)) (fsub bphi bplo)) (\<lambda>slope.
             Inr (py_round (fadd (fmul slope (fsub concentration bplo)) (of_int ilo))))
      else scan rest concentration)"

definition calculate_standard_aqi :: "rat \<Rightarrow> string \<Rightarrow> exn + int" where
  "calculate_standard_aqi concentration pollutant =
     (case breakpoints pollutant of
        None \<Rightarrow> Inl (ValueError ''No breakpoints defined for pollutant'')
      | Some table \<Rightarrow> scan table concentration)"

text \<open>Adjacent tuples of a table: each is a proper interval lying below the next one.\<close>

fun ascending :: "breakpoint list \<Rightarrow> bool" where
  "ascending [] = True"
| "ascending [(bplo, bphi, ilo, ihi)] = (bplo < bphi)"
| "ascending ((bplo, bphi, ilo, ihi) # (bplo', bphi', ilo', ihi') # rest) =
     (bplo < bphi \<and> bphi < bplo' \<and> ascending ((bplo', bphi', ilo', ihi') # rest))"

section \<open>nowcast\_aqi.py\<close>

text \<open>
  The weight factor of a non-empty window \<open>x # rest\<close>: \<open>min\<close> and \<open>max\<close> run over
  the list from its first element.
\<close>

definition nowcast_weight :: "rat \<Rightarrow> rat list \<Rightarrow> exn + rat" where
  "nowcast_weight x rest =
     (let c_min = foldl min x rest;
          c_max = foldl max x rest
      in if c_max > 0
         then exn_bind (fdiv (fsub c_max c_min) c_max) (\<lambda>scaled_rate.
                let w = fsub 1 scaled_rate
                in Inr (max (1 / 2) (min 1 w)))
         else Inr 1)"

text \<open>The weighted average: the most recent sample (the last of the list) has \<open>t = 0\<close>.\<close>

definition nowcast_concentration :: "libm_pow \<Rightarrow> rat \<Rightarrow> rat list \<Rightarrow> exn + rat" where
  "nowcast_concentration pow w pm_last_12h =
     (let numerator =
            py_sum (map (\<lambda>(t, c). fmul (fpow pow w t) c) (enumerate 0 (rev pm_last_12h)));
          denominator = py_sum (map (\<lambda>t. fpow pow w t) [0 ..< length pm_last_12h])
      in fdiv numerator denominator)"

text \<open>The result is \<open>None\<close> for the empty list and an index otherwise.\<close>

definition calculate_nowcast :: "libm_pow \<Rightarrow> rat list \<Rightarrow> string \<Rightarrow> exn + int option" where
  "calculate_nowcast pow pm_last_12h pollutant =
     (case pm_last_12h of
        [] \<Rightarrow> Inr None
      | x # rest \<Rightarrow>
          exn_bind (nowcast_weight x rest) (\<lambda>w.
          exn_bind (nowcast_concentration pow w pm_last_12h) (\<lambda>conc.
          exn_bind (calculate_standard_aqi conc pollutant) (\<lambda>aqi. Inr (Some aqi)))))"

section \<open>compare.py\<close>



section \<open>forecast\_3days.py\<close>

text \<open>
  \<open>current\<close> is a data frame of one row: its columns in order, each with the value of
  that row. A value is a number, a timestamp (nanoseconds since 1970-01-01 00:00) or a
  string. Assigning to a column replaces its value in place, or appends the column when
  it is new.
\<close>

datatype cell = Num rat | Ts int | Str string

type_synonym frame = "(string \<times> cell) list"

type_synonym regressor = "frame \<Rightarrow> exn + rat"

definition HOURS_AHEAD :: nat where
  "HOURS_AHEAD = 72"

definition HOUR :: int where
  "HOUR = 3600 * 1000000000"

definition drop_columns :: "string list \<Rightarrow> frame \<Rightarrow> frame" where
  "drop_columns columns df = filter (\<lambda>(k, v). k \<notin> set columns) df"

definition has_column :: "string \<Rightarrow> frame \<Rightarrow> bool" where
  "has_column k df = (map_of df k \<noteq> None)"

definition get_column :: "frame \<Rightarrow> string \<Rightarrow> cell \<Rightarrow> cell" where
  "get_column df k dflt = (case map_of df k of None \<Rightarrow> dflt | Some v \<Rightarrow> v)"

definition set_column :: "string \<Rightarrow> cell \<Rightarrow> frame \<Rightarrow> frame" where
  "set_column k v df = AList.update k v df"

text \<open>The calendar fields of a timestamp (proleptic Gregorian calendar, no time zone).\<close>

definition hour_of :: "int \<Rightarrow> int" where
  "hour_of t = (t div HOUR) mod 24"

definition days_of :: "int \<Rightarrow> int" where
  "days_of t = t div (24 * HOUR)"

definition dayofweek_of :: "int \<Rightarrow> int" where
  "dayofweek_of t = (days_of t + 3) mod 7"

definition month_day_of :: "int \<Rightarrow> int \<times> int" where
  "month_day_of t =
     (let z = days_of t + 719468;
          doe = z mod 146097;
          yoe = (doe - doe div 1460 + doe div 36524 - doe div 146096) div 365;
          doy = doe - (365 * yoe + yoe div 4 - yoe div 100);
          mp = (5 * doy + 2) div 153;
          d = doy - (153 * mp + 2) div 5 + 1;
          m = (if mp < 10 then mp + 3 else mp - 9)
      in (m, d))"

definition month_of :: "int \<Rightarrow> int" where
  "month_of t = fst (month_day_of t)"

definition day_of :: "int \<Rightarrow> int" where
  "day_of t = snd (month_day_of t)"

definition int_of_bool :: "bool \<Rightarrow> rat" where
  "int_of_bool b = (if b then 1 else 0)"

definition timestamp_of :: "frame \<Rightarrow> exn + int" where
  "timestamp_of df =
     (case map_of df ''timestamp'' of
        None \<Rightarrow> Inl (KeyError ''timestamp'')
      | Some (Ts t) \<Rightarrow> Inr t
      | Some _ \<Rightarrow> Inl TypeError)"

text \<open>One pass through the body of the loop: the prediction and the updated frame.\<close>

definition forecast_step :: "regressor \<Rightarrow> frame \<Rightarrow> exn + (rat \<times> frame)" where
  "forecast_step model current =
     (let X = drop_columns [''timestamp'', ''location'', ''pm25_next_hour''] current
      in exn_bind (model X) (\<lambda>pred_pm25.
         exn_bind (timestamp_of current) (\<lambda>ts.
           let next_time = ts + HOUR;
               current =
                 (if has_column ''pm25_lag_1h'' current
                  then let current = set_column ''pm25_lag_6h''
                                       (get_column current ''pm25_lag_3h'' (Num pred_pm25)) current
                       in set_column ''pm25_lag_3h''
                            (get_column current ''pm25_lag_1h'' (Num pred_pm25)) current
                  else current);
               current = set_column ''pm25_lag_1h'' (Num pred_pm25) current;
               current = set_column ''pm25'' (Num pred_pm25) current;
               current = set_column ''timestamp'' (Ts next_time) current;
               current = set_column ''hour'' (Num (of_int (hour_of next_time))) current;
               current = set_column ''day'' (Num (of_int (day_of next_time))) current;
               current = set_column ''month'' (Num (of_int (month_of next_time))) current;
               current = set_column ''day_of_week'' (Num (of_int (dayofweek_of next_time))) current;
               current = set_column ''is_weekend''
                           (Num (int_of_bool (dayofweek_of next_time \<ge> 5))) current;
               current = set_column ''is_rush_hour''
                           (Num (int_of_bool (hour_of next_time \<in> set [7, 8, 9, 17, 18, 19]))) current
           in Inr (pred_pm25, current))))"

text \<open>
  The loop \<open>for step in range(n)\<close> over the two variables it updates, \<open>current\<close> and
  \<open>predictions\<close>.
\<close>

fun forecast_loop :: "nat \<Rightarrow> regressor \<Rightarrow> frame \<Rightarrow> rat list \<Rightarrow> exn + (rat list \<times> frame)" where
  "forecast_loop 0 model current predictions = Inr (predictions, current)"
| "forecast_loop (Suc n) model current predictions =
     exn_bind (forecast_step model current) (\<lambda>(pred_pm25, current').
       forecast_loop n model current' (predictions @ [pred_pm25]))"

text \<open>
  \<open>forecast_3_days\<close> from the point where the regressor and the latest feature row have
  been loaded; both are arguments here.
\<close>

definition forecast_3_days :: "regressor \<Rightarrow> frame \<Rightarrow> exn + rat list" where
  "forecast_3_days model current =
     exn_bind (forecast_loop HOURS_AHEAD model current []) (\<lambda>(predictions, current').
       Inr predictions)"

abbreviation model_input :: "frame \<Rightarrow> frame" where
  "model_input current \<equiv> drop_columns [''timestamp'', ''location'', ''pm25_next_hour''] current"

section \<open>app.py: the forecast table\<close>

text \<open>
  The caller of \<open>forecast_3_days\<close> attaches the timestamps and the indices to the
  predictions: \<open>forecast_times\<close> counts hours from the latest row, and the column
  \<open>aqi\<close> is \<open>calculate_standard_aqi\<close> applied to every prediction. A row of the
  table is (timestamp, pm25, aqi).
\<close>

definition forecast_times :: "int \<Rightarrow> rat list \<Rightarrow> int list" where
  "forecast_times latest_timestamp predictions =
     map (\<lambda>i. latest_timestamp + (int i + 1) * HOUR) [0 ..< length predictions]"

fun apply_aqi :: "rat list \<Rightarrow> exn + int list" where
  "apply_aqi [] = Inr []"
| "apply_aqi (x # xs) =
     exn_bind (calculate_standard_aqi x ''pm25'') (\<lambda>a.
     exn_bind (apply_aqi xs) (\<lambda>as. Inr (a # as)))"

definition forecast_df :: "int \<Rightarrow> rat list \<Rightarrow> exn + (int \<times> rat \<times> int) list" where
  "forecast_df latest_timestamp predictions =
     exn_bind (apply_aqi predictions) (\<lambda>aqi.
       Inr (zip (forecast_times latest_timestamp predictions) (zip predictions aqi)))"

section \<open>Named quantities and sample inputs\<close>




text \<open>A feature row of 2024-02-01 00:00 with lag values 10, 20 and 30.\<close>

definition seed_row :: frame where
  "seed_row =
     [(''timestamp'', Ts (1706745600 * 1000000000)),
      (''location'', Str ''Karachi''),
      (''pm25'', Num 40),
      (''hour'', Num 0),
      (''pm25_lag_1h'', Num 10),
      (''pm25_lag_3h'', Num 20),
      (''pm25_lag_6h'', Num 30),
      (''pm25_rolling_3h'', Num 33)]"

definition always_5 :: regressor where
  "always_5 X = Inr 5"

text \<open>A regressor that raises as soon as the 6-hour lag it is given equals 5.\<close>

definition raises_on_lag :: regressor where
  "raises_on_lag X =
     (if map_of X ''pm25_lag_6h'' = Some (Num 5) then Inl (ModelError ''boom'') else Inr 5)"

section \<open>Exceptions\<close>

lemma exn_bind_Inr [simp]: "exn_bind (Inr v) f = f v"
  by (simp add: exn_bind_def)

lemma exn_bind_Inl [simp]: "exn_bind (Inl e) f = Inl e"
  by (simp add: exn_bind_def)

section \<open>Rounding\<close>



lemma round_half_even_ge_floor: "\<lfloor>x\<rfloor> \<le> round_half_even x"
  by (simp add: round_half_even_def Let_def)

lemma ilog2_le:
  assumes "0 < x"
  shows "power_int 2 (ilog2 x) \<le> x"
proof -
  obtain p q where pq: "quotient_of x = (p, q)" by (cases "quotient_of x")
  then have q: "0 < q" and x: "x = of_int p / of_int q"
    using quotient_of_denom_pos quotient_of_div by blast+
  with assms have p: "0 < p"
    by (simp add: zero_less_divide_iff)
  let ?k = "bitlen p - bitlen q"
  have il: "ilog2 x = (if power_int 2 ?k \<le> x then ?k else ?k - 1)"
    by (simp add: ilog2_def pq Let_def)
  show ?thesis
  proof (cases "power_int 2 ?k \<le> x")
    case True
    with il show ?thesis by simp
  next
    case False
    have bp: "1 \<le> bitlen p" using p by (simp add: bitlen_alt_def)
    have bq: "1 \<le> bitlen q" using q by (simp add: bitlen_alt_def)
    have "2 ^ nat (bitlen p - 1) \<le> p" using bitlen_bounds [OF p] by simp
    then have "(of_int (2 ^ nat (bitlen p - 1)) :: rat) \<le> of_int p"
      by (simp only: of_int_le_iff)
    then have lo: "(power_int 2 (bitlen p - 1) :: rat) \<le> of_int p"
      using bp by (simp add: power_int_def)
    have "q < 2 ^ nat (bitlen q)" using bitlen_bounds [OF q] by simp
    then have "(of_int q :: rat) < of_int (2 ^ nat (bitlen q))"
      by (simp only: of_int_less_iff)
    then have hi: "(of_int q :: rat) < power_int 2 (bitlen q)"
      using bq by (simp add: power_int_def)
    have "(power_int 2 (?k - 1) :: rat) = power_int 2 (bitlen p - 1) / power_int 2 (bitlen q)"
      by (simp add: power_int_diff)
    also have "\<dots> \<le> of_int p / power_int 2 (bitlen q)"
      using lo by (simp add: divide_right_mono)
    also have "\<dots> \<le> of_int p / of_int q"
      using hi p q by (simp add: frac_le)
    finally show ?thesis using il False x by simp
  qed
qed

lemma rnd_pos:
  assumes "0 < x"
  shows "0 < rnd x"
proof -
  define e where "e = ilog2 \<bar>x\<bar> - 52"
  have "power_int 2 (e + 52) \<le> x"
    using ilog2_le [OF assms] assms by (simp add: e_def)
  then have "(power_int 2 e :: rat) * 2 ^ 52 \<le> x"
    by (simp add: power_int_add)
  then have "(2 ^ 52 :: rat) \<le> x / power_int 2 e"
    by (simp add: pos_le_divide_eq mult.commute)
  moreover have "(1 :: rat) \<le> 2 ^ 52" by simp
  ultimately have "(1 :: rat) \<le> x / power_int 2 e" by (rule order_trans [rotated])
  then have "1 \<le> \<lfloor>x / power_int 2 e\<rfloor>" by simp
  then have "0 < round_half_even (x / power_int 2 e)"
    using round_half_even_ge_floor [of "x / power_int 2 e"] by linarith
  then have "0 < (of_int (round_half_even (x / power_int 2 e)) :: rat) * power_int 2 e"
    by simp
  with assms show ?thesis by (simp add: rnd_def e_def Let_def)
qed

section \<open>Scanning a breakpoint table\<close>

lemma scan_below_first:
  "ascending tbl \<Longrightarrow> tbl \<noteq> [] \<Longrightarrow> c < fst (hd tbl) \<Longrightarrow> scan tbl c = Inr 500"
  by (induction tbl rule: ascending.induct) auto

lemma ascending_first_below_upper:
  "ascending tbl \<Longrightarrow> j < length tbl \<Longrightarrow> fst (hd tbl) < fst (snd (tbl ! j))"
proof (induction tbl arbitrary: j rule: ascending.induct)
  case 1
  then show ?case by simp
next
  case (2 bplo bphi ilo ihi)
  then show ?case by simp
next
  case (3 bplo bphi ilo ihi bplo' bphi' ilo' ihi' rest)
  show ?case
  proof (cases j)
    case 0
    with "3.prems" show ?thesis by simp
  next
    case (Suc k)
    with "3.prems" have "k < length ((bplo', bphi', ilo', ihi') # rest)"
      and "ascending ((bplo', bphi', ilo', ihi') # rest)" by simp_all
    then have "bplo' < fst (snd (((bplo', bphi', ilo', ihi') # rest) ! k))"
      using "3.IH" by fastforce
    moreover from "3.prems" have "bplo < bplo'" by simp
    ultimately show ?thesis using Suc by simp
  qed
qed

lemma scan_gap:
  "ascending tbl \<Longrightarrow> Suc i < length tbl \<Longrightarrow> fst (snd (tbl ! i)) < c \<Longrightarrow>
   c < fst (tbl ! Suc i) \<Longrightarrow> scan tbl c = Inr 500"
proof (induction tbl arbitrary: i rule: ascending.induct)
  case 1
  then show ?case by simp
next
  case (2 bplo bphi ilo ihi)
  then show ?case by simp
next
  case (3 bplo bphi ilo ihi bplo' bphi' ilo' ihi' rest)
  show ?case
  proof (cases i)
    case 0
    with "3.prems" have "bphi < c" "c < bplo'" by simp_all
    moreover from "3.prems"(1) have "ascending ((bplo', bphi', ilo', ihi') # rest)" by simp
    ultimately show ?thesis
      using scan_below_first [of "(bplo', bphi', ilo', ihi') # rest" c] by simp
  next
    case (Suc j)
    with "3.prems" have "Suc j < length ((bplo', bphi', ilo', ihi') # rest)"
      and "fst (snd (((bplo', bphi', ilo', ihi') # rest) ! j)) < c"
      and "c < fst (((bplo', bphi', ilo', ihi') # rest) ! Suc j)"
      and asc: "ascending ((bplo', bphi', ilo', ihi') # rest)" by simp_all
    then have rec: "scan ((bplo', bphi', ilo', ihi') # rest) c = Inr 500"
      using "3.IH" by blast
    have "bplo' < fst (snd (((bplo', bphi', ilo', ihi') # rest) ! j))"
      using ascending_first_below_upper [OF asc, of j] \<open>Suc j < length ((bplo', bphi', ilo', ihi') # rest)\<close>
      by simp
    moreover from "3.prems"(1) have "bphi < bplo'" by simp
    ultimately have "bphi < c"
      using \<open>fst (snd (((bplo', bphi', ilo', ihi') # rest) ! j)) < c\<close> by linarith
    then show ?thesis using rec by simp
  qed
qed

lemma scan_above:
  "\<forall>bp \<in> set tbl. fst (snd bp) < c \<Longrightarrow> scan tbl c = Inr 500"
  by (induction tbl c rule: scan.induct) auto

lemma scan_never_configuration_error: "scan tbl c \<noteq> Inl ConfigurationError"
  by (induction tbl c rule: scan.induct) (auto simp: exn_bind_def fdiv_def)

lemma supported_cases:
  "breakpoints pollutant = Some table \<Longrightarrow>
   pollutant = ''pm25'' \<or> pollutant = ''pm10'' \<or> pollutant = ''o3''"
  by (simp add: breakpoints_def split: if_splits)

lemma pm25_ascending: "ascending (the (breakpoints ''pm25''))"
  by code_simp

lemma pm10_ascending: "ascending (the (breakpoints ''pm10''))"
  by code_simp

lemma o3_ascending: "ascending (the (breakpoints ''o3''))"
  by code_simp

lemma breakpoints_ascending:
  assumes "breakpoints pollutant = Some table"
  shows "ascending table"
  using supported_cases [OF assms] assms pm25_ascending pm10_ascending o3_ascending
  by auto

lemma scan_total: "ascending tbl \<Longrightarrow> \<exists>a. scan tbl c = Inr a"
proof (induction tbl rule: ascending.induct)
  case 1
  then show ?case by simp
next
  case (2 bplo bphi ilo ihi)
  then have "0 < fsub bphi bplo" by (simp add: fsub_def rnd_pos)
  then show ?case by (simp add: fdiv_def)
next
  case (3 bplo bphi ilo ihi bplo' bphi' ilo' ihi' rest)
  then have "0 < fsub bphi bplo" by (simp add: fsub_def rnd_pos)
  with 3 show ?case by (simp add: fdiv_def)
qed

lemma calculate_standard_aqi_total:
  "breakpoints pollutant = Some table \<Longrightarrow> \<exists>a. calculate_standard_aqi c pollutant = Inr a"
  using scan_total [OF breakpoints_ascending]
  by (simp add: calculate_standard_aqi_def)





section \<open>Sums and constant windows\<close>

























section \<open>The two averages of compare\_aqi\<close>




section \<open>Three o3 readings of 0.2\<close>









section \<open>The forecast loop\<close>

lemma map_of_set_column: "map_of (set_column k v df) = (map_of df)(k \<mapsto> v)"
  by (simp add: set_column_def update_conv')

lemma forecast_step_model_error:
  "model (drop_columns [''timestamp'', ''location'', ''pm25_next_hour''] current) = Inl e \<Longrightarrow>
   forecast_step model current = Inl e"
  by (simp add: forecast_step_def)

lemma forecast_step_ok:
  assumes "model (drop_columns [''timestamp'', ''location'', ''pm25_next_hour''] current) = Inr p"
      and "timestamp_of current = Inr t"
  shows "\<exists>current'. forecast_step model current = Inr (p, current') \<and>
           timestamp_of current' = Inr (t + HOUR)"
  using assms
  by (simp add: forecast_step_def Let_def timestamp_of_def map_of_set_column)

lemma forecast_step_lags:
  assumes "model (drop_columns [''timestamp'', ''location'', ''pm25_next_hour''] current) = Inr p"
      and "timestamp_of current = Inr t"
      and "map_of current ''pm25_lag_1h'' = Some a"
      and "map_of current ''pm25_lag_3h'' = Some b"
  shows "\<exists>current'. forecast_step model current = Inr (p, current') \<and>
           map_of current' ''pm25_lag_1h'' = Some (Num p) \<and>
           map_of current' ''pm25_lag_3h'' = Some a \<and>
           map_of current' ''pm25_lag_6h'' = Some b"
  using assms
  by (simp add: forecast_step_def Let_def has_column_def get_column_def map_of_set_column)

lemma forecast_loop_split:
  "forecast_loop (i + j) model current ps =
   exn_bind (forecast_loop i model current ps) (\<lambda>(ps', current'). forecast_loop j model current' ps')"
proof (induction i arbitrary: current ps)
  case 0
  then show ?case by simp
next
  case (Suc i)
  show ?case
  proof (cases "forecast_step model current")
    case (Inl e)
    then show ?thesis by simp
  next
    case (Inr r)
    obtain p c where "r = (p, c)" by (cases r)
    with Inr Suc.IH [of c "ps @ [p]"] show ?thesis by simp
  qed
qed

lemma forecast_loop_total:
  assumes "\<And>X. model X = Inr (f X)"
      and "timestamp_of current = Inr t"
  shows "\<exists>qs current'. forecast_loop n model current ps = Inr (ps @ qs, current') \<and>
           length qs = n \<and> timestamp_of current' = Inr (t + int n * HOUR)"
  using assms(2)
proof (induction n arbitrary: current ps t)
  case 0
  then show ?case by simp
next
  case (Suc n)
  obtain c where step: "forecast_step model current = Inr (f (model_input current), c)"
    and ts: "timestamp_of c = Inr (t + HOUR)"
    using forecast_step_ok [OF _ Suc.prems, of model "f (model_input current)"] assms(1)
    by auto
  obtain qs c' where
    "forecast_loop n model c (ps @ [f (model_input current)]) = Inr ((ps @ [f (model_input current)]) @ qs, c')"
    "length qs = n" "timestamp_of c' = Inr (t + HOUR + int n * HOUR)"
    using Suc.IH [OF ts] by blast
  with step show ?case
    by (intro exI [of _ "f (model_input current) # qs"] exI [of _ c']) (simp add: algebra_simps)
qed

lemma forecast_loop_constant:
  assumes "\<And>X. model X = Inr p"
      and "timestamp_of current = Inr t"
  shows "\<exists>current'. forecast_loop n model current ps = Inr (ps @ replicate n p, current')"
  using assms(2)
proof (induction n arbitrary: current ps t)
  case 0
  then show ?case by simp
next
  case (Suc n)
  have "model (model_input current) = Inr p" by (rule assms(1))
  then obtain c where step: "forecast_step model current = Inr (p, c)"
    and ts: "timestamp_of c = Inr (t + HOUR)"
    using forecast_step_ok Suc.prems by blast
  obtain c' where "forecast_loop n model c (ps @ [p]) = Inr ((ps @ [p]) @ replicate n p, c')"
    using Suc.IH [OF ts] by blast
  with step show ?case by (simp add: replicate_app_Cons_same)
qed

lemma apply_aqi_total:
  "\<exists>as. apply_aqi xs = Inr as \<and> length as = length xs \<and>
        (\<forall>i < length xs. calculate_standard_aqi (xs ! i) ''pm25'' = Inr (as ! i))"
proof (induction xs)
  case Nil
  then show ?case by simp
next
  case (Cons x xs)
  have "breakpoints ''pm25'' = Some (the (breakpoints ''pm25''))"
    by (simp add: breakpoints_def)
  then obtain a where a: "calculate_standard_aqi x ''pm25'' = Inr a"
    using calculate_standard_aqi_total by blast
  from Cons.IH obtain as where as: "apply_aqi xs = Inr as" "length as = length xs"
    "\<forall>i < length xs. calculate_standard_aqi (xs ! i) ''pm25'' = Inr (as ! i)" by blast
  have "\<forall>i < length (x # xs). calculate_standard_aqi ((x # xs) ! i) ''pm25'' = Inr ((a # as) ! i)"
    using a as(3) by (simp add: nth_Cons split: nat.split)
  with a as(1,2) show ?case by simp
qed

lemma forecast_df_rows:
  "\<exists>rows. forecast_df t0 xs = Inr rows \<and> length rows = length xs \<and>
     (\<forall>i < length xs. \<exists>a. calculate_standard_aqi (xs ! i) ''pm25'' = Inr a \<and>
        rows ! i = (t0 + (int i + 1) * HOUR, xs ! i, a))"
proof -
  obtain as where as: "apply_aqi xs = Inr as" "length as = length xs"
    "\<forall>i < length xs. calculate_standard_aqi (xs ! i) ''pm25'' = Inr (as ! i)"
    using apply_aqi_total by blast
  then show ?thesis
    by (simp add: forecast_df_def forecast_times_def)
qed

lemma forecast_loop_entry:
  assumes total: "\<And>X. model X = Inr (f X)"
      and seed: "timestamp_of seed = Inr t0"
      and run: "forecast_loop n model seed [] = Inr (predictions, final)"
      and i: "i < n"
  shows "\<exists>current. forecast_loop i model seed [] = Inr (take i predictions, current) \<and>
           timestamp_of current = Inr (t0 + int i * HOUR) \<and>
           predictions ! i = f (model_input current)"
proof -
  obtain qs c where pre: "forecast_loop i model seed [] = Inr (qs, c)"
    and len: "length qs = i" and ts: "timestamp_of c = Inr (t0 + int i * HOUR)"
    using forecast_loop_total [of model f seed t0 i "[]"] total seed by auto
  obtain j where n: "n = i + Suc j" using less_imp_Suc_add [OF i] by auto
  have "model (model_input c) = Inr (f (model_input c))" by (rule total)
  then obtain c' where step: "forecast_step model c = Inr (f (model_input c), c')"
    and ts': "timestamp_of c' = Inr (t0 + int i * HOUR + HOUR)"
    using forecast_step_ok ts by blast
  obtain rs c'' where rest:
    "forecast_loop j model c' (qs @ [f (model_input c)]) = Inr ((qs @ [f (model_input c)]) @ rs, c'')"
    using forecast_loop_total [of model f c' _ j "qs @ [f (model_input c)]"] total ts' by blast
  have "forecast_loop (Suc j) model c qs = Inr ((qs @ [f (model_input c)]) @ rs, c'')"
    using step rest by simp
  then have "forecast_loop n model seed [] = Inr ((qs @ [f (model_input c)]) @ rs, c'')"
    using pre unfolding n forecast_loop_split [of i "Suc j"] by simp
  with run have "predictions = qs @ f (model_input c) # rs" by simp
  with len have "take i predictions = qs" "predictions ! i = f (model_input c)"
    by (simp_all add: nth_append)
  with pre ts show ?thesis by simp
qed

section \<open>The claims\<close>

text \<open>
  Claim C1: for each supported pollutant \<open>calculate_standard_aqi\<close> is non-decreasing in
  the concentration. The code does not satisfy this. The double written \<open>12.05\<close> lies
  between the upper bound 12.0 of the first pm25 tuple and the lower bound 12.1 of the
  second, so no tuple holds it and the loop falls through to the final \<open>return 500\<close>;
  at the larger concentration 12.1 the index is 51. The theorem evaluates the code at this
  pair of inputs.
\<close>

theorem gap_breaks_monotonicity:
  "0 \<le> rnd (1205 / 100) \<and> rnd (1205 / 100) \<le> rnd (121 / 10) \<and>
   calculate_standard_aqi (rnd (1205 / 100)) ''pm25'' = Inr 500 \<and>
   calculate_standard_aqi (rnd (121 / 10)) ''pm25'' = Inr 51"
  by code_simp

text \<open>
  Claim C2: \<open>calculate_nowcast\<close> on an empty window fails with \<open>EmptyWindow\<close> and
  returns no sentinel. The code guards the empty list and returns \<open>None\<close>, so the
  result on the empty pm25 window is not that error, whatever the library's \<open>pow\<close>.
\<close>

theorem empty_window_not_EmptyWindow:
  "\<forall>pow. calculate_nowcast pow [] ''pm25'' \<noteq> Inl EmptyWindow"
  by (simp add: calculate_nowcast_def)

text \<open>
  Claim C2, as the code has it: on the empty window \<open>calculate_nowcast\<close> returns
  \<open>None\<close> and raises nothing, for every pollutant name, supported or not, since the
  guard comes before the table lookup.
\<close>

theorem empty_window_returns_None:
  "calculate_nowcast pow [] pollutant = Inr None"
  by (simp add: calculate_nowcast_def)

text \<open>
  Claim C3: a forecast run of horizon 72 returns 72 pairs (timestamp, index), and a run
  of horizon 0 the empty series. \<open>forecast_3_days\<close> has no horizon argument and returns
  the raw predictions: with a regressor that always answers 5 every entry of the result is
  5, while the index of 5 is 21.
\<close>

theorem forecast_returns_raw_predictions_counterexample:
  "forecast_3_days always_5 seed_row = Inr (replicate 72 5) \<and>
   calculate_standard_aqi 5 ''pm25'' = Inr 21 \<and>
   replicate 72 (5 :: rat) \<noteq> replicate 72 (of_int 21)"
proof -
  have ts: "timestamp_of seed_row = Inr (1706745600 * 1000000000)"
    by (simp add: timestamp_of_def seed_row_def)
  have "\<And>X. always_5 X = Inr 5" by (simp add: always_5_def)
  then obtain c where "forecast_loop 72 always_5 seed_row [] = Inr ([] @ replicate 72 5, c)"
    using forecast_loop_constant [of always_5 5 seed_row _ 72 "[]"] ts by blast
  then have "forecast_3_days always_5 seed_row = Inr (replicate 72 5)"
    by (simp add: forecast_3_days_def HOURS_AHEAD_def)
  moreover have "calculate_standard_aqi 5 ''pm25'' = Inr 21" by code_simp
  moreover have "replicate 72 (5 :: rat) \<noteq> replicate 72 (of_int 21)" by simp
  ultimately show ?thesis by blast
qed

text \<open>
  Claim C3, as the code has it. When the regressor never raises and the seed row carries
  a timestamp, \<open>forecast_3_days\<close> returns exactly 72 predictions; entry \<open>i\<close> is the
  regressor's answer on the frame reached after \<open>i\<close> passes, whose timestamp is the
  seed's plus \<open>i\<close> hours. The caller's table then has 72 rows, row \<open>i\<close> pairing the
  timestamp \<open>i + 1\<close> hours after the seed with the prediction and its index. The loop
  run for 0 passes leaves the empty list.
\<close>

theorem forecast_3_days_72_raw_predictions:
  assumes "\<forall>X. model X = Inr (f X)"
      and "timestamp_of seed = Inr t0"
  shows "\<exists>predictions rows.
           forecast_3_days model seed = Inr predictions \<and> length predictions = 72 \<and>
           (\<forall>i < 72. \<exists>current.
              forecast_loop i model seed [] = Inr (take i predictions, current) \<and>
              timestamp_of current = Inr (t0 + int i * HOUR) \<and>
              predictions ! i = f (model_input current)) \<and>
           forecast_df t0 predictions = Inr rows \<and> length rows = 72 \<and>
           (\<forall>i < 72. \<exists>aqi.
              calculate_standard_aqi (predictions ! i) ''pm25'' = Inr aqi \<and>
              rows ! i = (t0 + (int i + 1) * HOUR, predictions ! i, aqi)) \<and>
           forecast_loop 0 model seed [] = Inr ([], seed)"
proof -
  have total: "\<And>X. model X = Inr (f X)" using assms(1) by simp
  obtain predictions final where run:
    "forecast_loop 72 model seed [] = Inr (predictions, final)" and len: "length predictions = 72"
    using forecast_loop_total [of model f seed t0 72 "[]"] total assms(2) by auto
  have ret: "forecast_3_days model seed = Inr predictions"
    using run by (simp add: forecast_3_days_def HOURS_AHEAD_def)
  have entries: "\<forall>i < 72. \<exists>current.
      forecast_loop i model seed [] = Inr (take i predictions, current) \<and>
      timestamp_of current = Inr (t0 + int i * HOUR) \<and>
      predictions ! i = f (model_input current)"
    using forecast_loop_entry [of model f seed t0 72 predictions final] total assms(2) run
    by blast
  obtain rows where rows: "forecast_df t0 predictions = Inr rows"
    "length rows = length predictions"
    "\<forall>i < length predictions. \<exists>a. calculate_standard_aqi (predictions ! i) ''pm25'' = Inr a \<and>
        rows ! i = (t0 + (int i + 1) * HOUR, predictions ! i, a)"
    using forecast_df_rows [of t0 predictions] by blast
  show ?thesis
    using ret len entries rows by (intro exI [of _ predictions] exI [of _ rows]) simp
qed

theorem forecast_3_days_72_raw_predictions_witness:
  "(\<forall>X. always_5 X = Inr ((\<lambda>X. 5) X)) \<and>
   timestamp_of seed_row = Inr (1706745600 * 1000000000) \<and>
   (\<exists>predictions rows.
      forecast_3_days always_5 seed_row = Inr predictions \<and> length predictions = 72 \<and>
      (\<forall>i < 72. \<exists>current.
         forecast_loop i always_5 seed_row [] = Inr (take i predictions, current) \<and>
         timestamp_of current = Inr (1706745600 * 1000000000 + int i * HOUR) \<and>
         predictions ! i = 5) \<and>
      forecast_df (1706745600 * 1000000000) predictions = Inr rows \<and> length rows = 72 \<and>
      (\<forall>i < 72. \<exists>aqi.
         calculate_standard_aqi (predictions ! i) ''pm25'' = Inr aqi \<and>
         rows ! i = (1706745600 * 1000000000 + (int i + 1) * HOUR, predictions ! i, aqi)) \<and>
      forecast_loop 0 always_5 seed_row [] = Inr ([], seed_row))"
proof -
  have h1: "\<forall>X. always_5 X = Inr ((\<lambda>X. 5) X)" by (simp add: always_5_def)
  have h2: "timestamp_of seed_row = Inr (1706745600 * 1000000000)"
    by (simp add: timestamp_of_def seed_row_def)
  show ?thesis
    using forecast_3_days_72_raw_predictions [of always_5 "\<lambda>X. 5" seed_row
        "1706745600 * 1000000000"] h1 h2
    by simp
qed

text \<open>
  Claim C4: when the regressor raises at step \<open>k\<close>, \<open>forecast_3_days\<close> fails with
  \<open>ForecastStepFailed\<close> carrying \<open>k\<close>. The loop has no handler, so the
  regressor's own exception leaves the function: the sample regressor answers three times
  and raises in the pass of index 3, and the result is its \<open>ModelError\<close>, not
  \<open>ForecastStepFailed 3\<close>.
\<close>

theorem model_error_at_step_3_counterexample:
  "map_sum id fst (forecast_loop 3 raises_on_lag seed_row []) = Inr [5, 5, 5] \<and>
   forecast_3_days raises_on_lag seed_row = Inl (ModelError ''boom'') \<and>
   forecast_3_days raises_on_lag seed_row \<noteq> Inl (ForecastStepFailed 3)"
  by code_simp

text \<open>
  Claim C4, as the code has it. If \<open>k\<close> passes succeed and the regressor raises
  \<open>e\<close> on the frame reached then, with \<open>k\<close> below the horizon,
  \<open>forecast_3_days\<close> fails with \<open>e\<close> itself; the predictions gathered so far are
  not returned.
\<close>

theorem model_error_propagates_unchanged:
  assumes "k < HOURS_AHEAD"
      and "forecast_loop k model seed [] = Inr (predictions, current)"
      and "model (model_input current) = Inl e"
  shows "forecast_3_days model seed = Inl e"
proof -
  obtain j where n: "HOURS_AHEAD = k + Suc j"
    using less_imp_Suc_add [OF assms(1)] by auto
  have "forecast_step model current = Inl e"
    using assms(3) by (rule forecast_step_model_error)
  then have "forecast_loop (Suc j) model current predictions = Inl e" by simp
  then have "forecast_loop HOURS_AHEAD model seed [] = Inl e"
    using assms(2) unfolding n forecast_loop_split [of k "Suc j"] by simp
  then show ?thesis by (simp add: forecast_3_days_def)
qed

theorem model_error_propagates_unchanged_witness:
  "3 < HOURS_AHEAD \<and>
   forecast_loop 3 raises_on_lag seed_row [] =
     Inr (fst (projr (forecast_loop 3 raises_on_lag seed_row [])),
          snd (projr (forecast_loop 3 raises_on_lag seed_row []))) \<and>
   raises_on_lag (model_input (snd (projr (forecast_loop 3 raises_on_lag seed_row [])))) =
     Inl (ModelError ''boom'') \<and>
   forecast_3_days raises_on_lag seed_row = Inl (ModelError ''boom'')"
proof -
  have h1: "3 < HOURS_AHEAD" by (simp add: HOURS_AHEAD_def)
  have h2: "forecast_loop 3 raises_on_lag seed_row [] =
     Inr (fst (projr (forecast_loop 3 raises_on_lag seed_row [])),
          snd (projr (forecast_loop 3 raises_on_lag seed_row [])))"
    by code_simp
  have h3: "raises_on_lag (model_input (snd (projr (forecast_loop 3 raises_on_lag seed_row [])))) =
     Inl (ModelError ''boom'')"
    by code_simp
  show ?thesis
    using model_error_propagates_unchanged [of 3 raises_on_lag seed_row
        "fst (projr (forecast_loop 3 raises_on_lag seed_row []))"
        "snd (projr (forecast_loop 3 raises_on_lag seed_row []))" "ModelError ''boom''"]
      h1 h2 h3 by simp
qed

text \<open>
  Claim C5: one pass of the loop moves the 3-hour lag into the 6-hour lag, the 1-hour
  lag into the 3-hour lag and the new prediction into the 1-hour lag, for a frame that
  has the 1-hour and the 3-hour lag columns. The instance after the theorem is the one of
  the claim: lags 10, 20, 30 and a regressor that always answers 5 give 5, 10, 20.
\<close>

theorem lag_shift_one_step:
  assumes "model (model_input current) = Inr p"
      and "timestamp_of current = Inr t"
      and "map_of current ''pm25_lag_1h'' = Some a"
      and "map_of current ''pm25_lag_3h'' = Some b"
  shows "\<exists>current'. forecast_step model current = Inr (p, current') \<and>
           map_of current' ''pm25_lag_1h'' = Some (Num p) \<and>
           map_of current' ''pm25_lag_3h'' = Some a \<and>
           map_of current' ''pm25_lag_6h'' = Some b"
  using assms by (rule forecast_step_lags)

theorem lag_shift_one_step_witness:
  "always_5 (model_input seed_row) = Inr 5 \<and>
   timestamp_of seed_row = Inr (1706745600 * 1000000000) \<and>
   map_of seed_row ''pm25_lag_1h'' = Some (Num 10) \<and>
   map_of seed_row ''pm25_lag_3h'' = Some (Num 20) \<and>
   map_of seed_row ''pm25_lag_6h'' = Some (Num 30) \<and>
   (\<exists>current'. forecast_step always_5 seed_row = Inr (5, current') \<and>
      map_of current' ''pm25_lag_1h'' = Some (Num 5) \<and>
      map_of current' ''pm25_lag_3h'' = Some (Num 10) \<and>
      map_of current' ''pm25_lag_6h'' = Some (Num 20))"
proof -
  have h1: "always_5 (model_input seed_row) = Inr 5" by (simp add: always_5_def)
  have h2: "timestamp_of seed_row = Inr (1706745600 * 1000000000)"
    by (simp add: timestamp_of_def seed_row_def)
  have h3: "map_of seed_row ''pm25_lag_1h'' = Some (Num 10)" by (simp add: seed_row_def)
  have h4: "map_of seed_row ''pm25_lag_3h'' = Some (Num 20)" by (simp add: seed_row_def)
  have h5: "map_of seed_row ''pm25_lag_6h'' = Some (Num 30)" by (simp add: seed_row_def)
  show ?thesis
    using lag_shift_one_step [of always_5 seed_row 5 "1706745600 * 1000000000" "Num 10" "Num 20"]
      h1 h2 h3 h4 h5 by simp
qed

text \<open>
  Claim C6: for pm25 the concentration 12.0 has index 50 and 12.1 has index 51; the
  tuples of the table are closed intervals, each ending strictly below the start of the
  next.
\<close>

theorem pm25_boundary_12_0_and_12_1:
  "calculate_standard_aqi (rnd 12) ''pm25'' = Inr 50 \<and>
   calculate_standard_aqi (rnd (121 / 10)) ''pm25'' = Inr 51 \<and>
   ascending (the (breakpoints ''pm25''))"
  by code_simp

text \<open>
  Claim C7: for a supported pollutant, a concentration above the upper bound of every
  tuple of its table has index 500, and no exception is raised. The instance after the
  theorem is pm25 at 1000.
\<close>

theorem above_every_range_yields_500:
  assumes "breakpoints pollutant = Some table"
      and "\<forall>bp \<in> set table. fst (snd bp) < concentration"
  shows "calculate_standard_aqi concentration pollutant = Inr 500"
  using assms scan_above [of table concentration]
  by (simp add: calculate_standard_aqi_def)

theorem above_every_range_yields_500_witness:
  "breakpoints ''pm25'' = Some (the (breakpoints ''pm25'')) \<and>
   list_all (\<lambda>bp. fst (snd bp) < 1000) (the (breakpoints ''pm25'')) \<and>
   calculate_standard_aqi 1000 ''pm25'' = Inr 500"
proof -
  have h1: "breakpoints ''pm25'' = Some (the (breakpoints ''pm25''))"
    by (simp add: breakpoints_def)
  have h2: "\<forall>bp \<in> set (the (breakpoints ''pm25'')). fst (snd bp) < 1000"
    by code_simp
  show ?thesis
    using above_every_range_yields_500 [OF h1 h2] h1 h2 by (simp add: list_all_iff)
qed








text \<open>
  Claim C10: for a supported pollutant, a concentration strictly between the upper
  bound of one tuple and the lower bound of the next matches no tuple and has index 500;
  no call of \<open>calculate_standard_aqi\<close> raises \<open>ConfigurationError\<close>. The instance
  after the theorem is the double written \<open>12.05\<close> for pm25.
\<close>

theorem gap_concentration_yields_500:
  assumes "breakpoints pollutant = Some table"
      and "Suc i < length table"
      and "fst (snd (table ! i)) < concentration"
      and "concentration < fst (table ! Suc i)"
  shows "calculate_standard_aqi concentration pollutant = Inr 500 \<and>
         calculate_standard_aqi c' pollutant' \<noteq> Inl ConfigurationError"
proof -
  have "scan table concentration = Inr 500"
    using scan_gap [OF breakpoints_ascending [OF assms(1)] assms(2-4)] .
  moreover have "calculate_standard_aqi c' pollutant' \<noteq> Inl ConfigurationError"
    using scan_never_configuration_error
    by (simp add: calculate_standard_aqi_def split: option.splits)
  ultimately show ?thesis
    using assms(1) by (simp add: calculate_standard_aqi_def)
qed

theorem gap_concentration_yields_500_witness:
  "breakpoints ''pm25'' = Some (the (breakpoints ''pm25'')) \<and>
   Suc 0 < length (the (breakpoints ''pm25'')) \<and>
   fst (snd (the (breakpoints ''pm25'') ! 0)) < rnd (1205 / 100) \<and>
   rnd (1205 / 100) < fst (the (breakpoints ''pm25'') ! Suc 0) \<and>
   calculate_standard_aqi (rnd (1205 / 100)) ''pm25'' = Inr 500 \<and>
   calculate_standard_aqi 0 ''co'' \<noteq> Inl ConfigurationError"
proof -
  have h1: "breakpoints ''pm25'' = Some (the (breakpoints ''pm25''))"
    by (simp add: breakpoints_def)
  have h2: "Suc 0 < length (the (breakpoints ''pm25''))"
    by (simp add: breakpoints_def)
  have h3: "fst (snd (the (breakpoints ''pm25'') ! 0)) < rnd (1205 / 100)"
    by code_simp
  have h4: "rnd (1205 / 100) < fst (the (breakpoints ''pm25'') ! Suc 0)"
    by code_simp
  show ?thesis
    using gap_concentration_yields_500 [OF h1 h2 h3 h4, of 0 "''co''"] h1 h2 h3 h4 by simp
qed

end
